theory Spec2Isabelle
  imports Main "HOL-Library.AList"
begin

section \<open>The KMZ generator script as a state transformer\<close>

text \<open>
  The script \<^verbatim>\<open>Interstate_Parkway_KMZGenerator.py\<close> is a straight-line batch job. Its
  effects are made explicit here: the drive-letter bindings of the host, the local and
  the remote directories, the records handed to the logging module and the mails handed
  to the SMTP relay are fields of a \<open>world\<close>; whatever the host decides (whether a
  \<^verbatim>\<open>net use\<close> command succeeds, whether the converter raises, whether the relay
  answers) is a field of an \<open>env\<close>; the configuration file is an argument. A step
  either continues with a new world, leaves the process, or raises.
\<close>

subsection \<open>Python values, exceptions, process outcomes\<close>

text \<open>
  What \<^verbatim>\<open>json.load\<close> returns. Numbers are integers here; a dictionary is the list of
  its items, looked up with \<open>map_of\<close>.
\<close>

datatype json =
    JNull
  | JBool bool
  | JNum int
  | JStr string
  | JList "json list"
  | JDict "(string \<times> json) list"

datatype exn =
    NameError
  | KeyError
  | TypeError
  | ValueError
  | AttributeError
  | FileNotFoundError
  | JSONDecodeError
  | OSError
  | ShutilError
  | CalledProcessError
  | ExecuteError
  | SMTPException

text \<open>
  The process ends by \<^verbatim>\<open>sys.exit(n)\<close>, by running off the end of the script
  (\<open>Exit 0\<close>), or by an exception nobody catches: the interpreter prints the traceback
  and the exit status is 1.
\<close>

datatype outcome = Exit nat | Uncaught exn

fun exit_code :: "outcome \<Rightarrow> nat" where
  "exit_code (Exit n) = n"
| "exit_code (Uncaught e) = 1"

text \<open>
  A record of the logging module: the level, the text, and for an error the line
  number that the f-string put into the text (\<open>None\<close> when the text holds none).
  Interpolated exception texts and timestamps are left out of the text.
\<close>

datatype log_entry = Info string | Error string "nat option"

subsection \<open>The file systems\<close>

text \<open>
  A file is its identity (what \<^verbatim>\<open>os.path.samefile\<close> compares) and the date of its
  creation timestamp. An entry of a local directory is a regular file, a directory, or
  an entry that is neither for \<^verbatim>\<open>os.path\<close>: \<^verbatim>\<open>os.path.isfile\<close> and \<^verbatim>\<open>os.path.isdir\<close>
  call \<^verbatim>\<open>os.stat\<close> and answer \<^verbatim>\<open>False\<close> when it fails, so both are \<^verbatim>\<open>False\<close> on a link
  whose target is gone and on an entry whose attributes the host refuses to give.
  \<open>Other\<close> stands for such an entry.
\<close>

type_synonym fstat = "nat \<times> nat"

datatype node = File fstat | Dir "(string \<times> node) list" | Other

type_synonym dir = "(string \<times> node) list"

fun isfile :: "node \<Rightarrow> bool" where
  "isfile (File f) = True"
| "isfile (Dir es) = False"
| "isfile Other = False"

fun isdir :: "node \<Rightarrow> bool" where
  "isdir (File f) = False"
| "isdir (Dir es) = True"
| "isdir Other = False"

text \<open>
  The remote directory \<^verbatim>\<open>N:\EVERYONE\GIS\KMZ_Files\<close> of a share: the entries below it,
  keyed by their path relative to it (the empty path is the directory itself). A remote
  directory carries the date of its creation timestamp.
\<close>

datatype rnode = RFile fstat | RDir nat

type_synonym remote = "(string list \<times> rnode) list"

subsection \<open>The host and the state\<close>

text \<open>
  The file \<^verbatim>\<open>config.json\<close> beside the script: absent, not JSON, or the value it parses
  to.
\<close>

datatype config_src = NoFile | BadJson | Parsed json

record env =
  today :: nat
  log_openable :: "string \<Rightarrow> bool"
  conv_result :: "string \<Rightarrow> fstat option"
  net_bind_ok :: "string \<Rightarrow> string \<Rightarrow> bool"
  net_unbind_ok :: "string \<Rightarrow> bool"
  rm_fails :: "string \<Rightarrow> bool"
  smtp_ok :: bool
  arrive :: "fstat \<Rightarrow> fstat"
  mkdir_date :: nat
  tb_line :: "exn \<Rightarrow> nat"

text \<open>
  The arguments of one call of \<^verbatim>\<open>arcpy.LayerToKML_conversion\<close>, in the order of the
  call.
\<close>

type_synonym conv_call =
  "string \<times> string \<times> nat \<times> string \<times> string \<times> nat \<times> nat \<times> string"

record world =
  drives :: "string \<Rightarrow> string option"
  disk :: "string \<Rightarrow> dir option"
  shares :: "string \<Rightarrow> remote"
  conv_calls :: "conv_call list"
  logged :: "log_entry list"
  outbox :: "string list"

text \<open>
  What a piece of the script does to the control flow: it falls through to the next
  statement with a value, it leaves the process by \<^verbatim>\<open>sys.exit\<close>, or it raises an
  exception that the enclosing \<^verbatim>\<open>try\<close>, if there is one, may catch. \<^verbatim>\<open>SystemExit\<close>
  is not an \<^verbatim>\<open>Exception\<close>: no handler of the script catches it.
\<close>

datatype 'a flow = Next 'a world | Halt nat world | Raise exn world

definition and_then :: "'a flow \<Rightarrow> ('a \<Rightarrow> world \<Rightarrow> 'b flow) \<Rightarrow> 'b flow" where
  "and_then m k =
     (case m of Next a w \<Rightarrow> k a w | Halt n w \<Rightarrow> Halt n w | Raise e w \<Rightarrow> Raise e w)"

definition try_except :: "'a flow \<Rightarrow> (exn \<Rightarrow> world \<Rightarrow> 'a flow) \<Rightarrow> 'a flow" where
  "try_except m h =
     (case m of Next a w \<Rightarrow> Next a w | Halt n w \<Rightarrow> Halt n w | Raise e w \<Rightarrow> h e w)"

definition log_info :: "string \<Rightarrow> world \<Rightarrow> world" where
  "log_info msg w = w\<lparr>logged := logged w @ [Info msg]\<rparr>"

definition log_error :: "string \<Rightarrow> nat option \<Rightarrow> world \<Rightarrow> world" where
  "log_error msg line w = w\<lparr>logged := logged w @ [Error msg line]\<rparr>"

subsection \<open>Constants\<close>

definition sep :: string where
  "sep = [CHR 0x5C]"

definition ERROR_SUBJECT :: string where
  "ERROR_SUBJECT = ''Interstate_Parkway KMZ Generator ETL TST Error''"

definition SUCCESS_SUBJECT :: string where
  "SUCCESS_SUBJECT = ''Interstate_Parkway KMZ Generator ETL TST Success''"

definition J_ARCHIVE :: string where
  "J_ARCHIVE = sep @ sep @ ''eas.ds.ky.gov'' @ sep @ ''dfs'' @ sep @ ''HIS_Archives''"

subsection \<open>sendEmail\<close>

text \<open>
  \<^verbatim>\<open>sendEmail\<close> hands the message to the relay and logs that it did. Nothing in it is
  guarded: when the relay fails the exception leaves the function.
\<close>

definition sendEmail :: "env \<Rightarrow> string \<Rightarrow> world \<Rightarrow> unit flow" where
  "sendEmail env esubject w =
     (if smtp_ok env
      then Next () (log_info ''Email sent to GIS Team SDE Administrators.''
                      (w\<lparr>outbox := outbox w @ [esubject]\<rparr>))
      else Raise SMTPException w)"

text \<open>
  The block the handlers of the main script end with: log the error with the line
  number taken from the traceback, send the failure mail, \<^verbatim>\<open>sys.exit(1)\<close>.
\<close>

definition fail_exit :: "env \<Rightarrow> string \<Rightarrow> exn \<Rightarrow> world \<Rightarrow> 'a flow" where
  "fail_exit env msg e w =
     and_then (sendEmail env ERROR_SUBJECT (log_error msg (Some (tb_line env e)) w))
       (\<lambda>_ w'. Halt 1 w')"

subsection \<open>Drive mapping\<close>

text \<open>
  \<^verbatim>\<open>net use X:\<close> returns 0 exactly when the letter is bound. \<^verbatim>\<open>net use X: path\<close>
  binds the letter when it succeeds; \<^verbatim>\<open>net use X: /delete\<close> releases it when it
  succeeds; a failing command changes nothing and makes \<^verbatim>\<open>subprocess.run\<close> raise
  \<^verbatim>\<open>CalledProcessError\<close>.
\<close>

definition is_drive_mapped :: "string \<Rightarrow> world \<Rightarrow> bool" where
  "is_drive_mapped drive_letter w = (drives w drive_letter \<noteq> None)"

text \<open>
  The handler of \<^verbatim>\<open>map_network_drive\<close> catches \<^verbatim>\<open>CalledProcessError\<close> only, logs and
  exits; it does not call \<^verbatim>\<open>sendEmail\<close>. A path that is not a string makes
  \<^verbatim>\<open>subprocess.run\<close> raise \<^verbatim>\<open>TypeError\<close>, which the handler does not catch.
\<close>

definition net_use_bind :: "env \<Rightarrow> string \<Rightarrow> json \<Rightarrow> world \<Rightarrow> unit flow" where
  "net_use_bind env drive_letter network_path w =
     (case network_path of
        JStr p \<Rightarrow>
          (if net_bind_ok env drive_letter p
           then Next () (w\<lparr>drives := (drives w)(drive_letter \<mapsto> p)\<rparr>)
           else Raise CalledProcessError w)
      | _ \<Rightarrow> Raise TypeError w)"

definition map_network_drive :: "env \<Rightarrow> string \<Rightarrow> json \<Rightarrow> world \<Rightarrow> unit flow" where
  "map_network_drive env drive_letter network_path w =
     try_except
       (if \<not> is_drive_mapped drive_letter w then
          and_then (net_use_bind env drive_letter network_path w)
            (\<lambda>_ w'. Next () (log_info (''Drive '' @ drive_letter @ '' has been mapped'') w'))
        else Next () w)
       (\<lambda>e w'. if e = CalledProcessError
                then Halt 1 (log_error ''An error occurred while mapping the drive''
                               (Some (tb_line env e)) w')
                else Raise e w')"

text \<open>
  The handler of \<^verbatim>\<open>unmap_network_drive\<close> binds no name to the exception and then
  reads \<^verbatim>\<open>e.__traceback__\<close>: the name \<^verbatim>\<open>e\<close> is not defined, so the handler itself
  raises \<^verbatim>\<open>NameError\<close> before it logs anything.
\<close>

definition net_use_delete :: "env \<Rightarrow> string \<Rightarrow> world \<Rightarrow> unit flow" where
  "net_use_delete env drive_letter w =
     (if net_unbind_ok env drive_letter
      then Next () (w\<lparr>drives := (drives w)(drive_letter := None)\<rparr>)
      else Raise CalledProcessError w)"

definition unmap_network_drive :: "env \<Rightarrow> string \<Rightarrow> world \<Rightarrow> unit flow" where
  "unmap_network_drive env drive_letter w =
     (if is_drive_mapped drive_letter w then
        try_except
          (and_then (net_use_delete env drive_letter w)
             (\<lambda>_ w'. Next () (log_info (''Drive '' @ drive_letter @ '' has been unmapped.'') w')))
          (\<lambda>e w'. if e = CalledProcessError then Raise NameError w' else Raise e w')
      else Next () (log_info (''Drive '' @ drive_letter @ '' is not mapped.'') w))"

subsection \<open>Loading the configuration\<close>

text \<open>Python's truth value of an object, as \<^verbatim>\<open>not working_dir\<close> tests it.\<close>

fun truthy :: "json \<Rightarrow> bool" where
  "truthy JNull = False"
| "truthy (JBool b) = b"
| "truthy (JNum n) = (n \<noteq> 0)"
| "truthy (JStr s) = (s \<noteq> [])"
| "truthy (JList xs) = (xs \<noteq> [])"
| "truthy (JDict kvs) = (kvs \<noteq> [])"

text \<open>\<^verbatim>\<open>data[key]\<close> with a string key, and \<^verbatim>\<open>data.get(key, default)\<close>.\<close>

fun subscript :: "json \<Rightarrow> string \<Rightarrow> exn + json" where
  "subscript (JDict kvs) k = (case map_of kvs k of None \<Rightarrow> Inl KeyError | Some v \<Rightarrow> Inr v)"
| "subscript _ k = Inl TypeError"

fun dict_get :: "json \<Rightarrow> string \<Rightarrow> json \<Rightarrow> exn + json" where
  "dict_get (JDict kvs) k d = Inr (case map_of kvs k of None \<Rightarrow> d | Some v \<Rightarrow> v)"
| "dict_get _ k d = Inl AttributeError"

text \<open>The module-level variables the configuration block assigns.\<close>

record config =
  working_dir :: string
  export_dir :: string
  layer_dir :: string
  sde_dir :: json
  prd_conn :: json
  j_drive :: json
  n_drive :: json

text \<open>
  The body of the \<^verbatim>\<open>try\<close>. An exception is returned together with the value of
  \<^verbatim>\<open>working_dir\<close> at that moment (\<open>None\<close> while the name is unassigned), because the
  handlers read it. \<^verbatim>\<open>os.path.join\<close> raises \<^verbatim>\<open>TypeError\<close> on a first argument that is
  not a string; \<^verbatim>\<open>logging.basicConfig\<close> opens the log file and raises when it cannot.
\<close>

definition config_body :: "env \<Rightarrow> config_src \<Rightarrow> world \<Rightarrow> (exn \<times> json option \<times> world) + (config \<times> world)" where
  "config_body env config_file w =
     (case config_file of
        NoFile \<Rightarrow> Inl (FileNotFoundError, None, w)
      | BadJson \<Rightarrow> Inl (JSONDecodeError, None, w)
      | Parsed data \<Rightarrow>
          (case subscript data ''working_dir'' of
             Inl e \<Rightarrow> Inl (e, None, w)
           | Inr wd \<Rightarrow>
               if \<not> truthy wd then Inl (ValueError, Some wd, w)
               else
                 (case wd of
                    JStr s \<Rightarrow>
                      if \<not> log_openable env s then Inl (FileNotFoundError, Some wd, w)
                      else
                        let w1 = log_info (''Working directory imported from Config file: '' @ s)
                                   (log_info ''today'' w)
                        in
                        (case subscript data ''sde_dir'' of
                           Inl e \<Rightarrow> Inl (e, Some wd, w1)
                         | Inr sde \<Rightarrow>
                         (case subscript data ''prd_conn'' of
                           Inl e \<Rightarrow> Inl (e, Some wd, w1)
                         | Inr prd \<Rightarrow>
                         (case dict_get data ''drive_mappings'' (JDict []) of
                           Inl e \<Rightarrow> Inl (e, Some wd, w1)
                         | Inr dm \<Rightarrow>
                         (case dict_get dm ''j_drive'' JNull of
                           Inl e \<Rightarrow> Inl (e, Some wd, w1)
                         | Inr j \<Rightarrow>
                         (case dict_get dm ''n_drive'' JNull of
                           Inl e \<Rightarrow> Inl (e, Some wd, w1)
                         | Inr n \<Rightarrow>
                             Inr (\<lparr>working_dir = s,
                                   export_dir = s @ sep @ ''KMZ_Exports'',
                                   layer_dir = s @ sep @ ''LayerFiles'',
                                   sde_dir = sde, prd_conn = prd,
                                   j_drive = j, n_drive = n\<rparr>,
                                  log_info ''Other parameters imported from Config file.'' w1))))))
                  | _ \<Rightarrow> Inl (TypeError, Some wd, w))))"

text \<open>
  Both handlers compute \<^verbatim>\<open>os.path.join(working_dir, "logs", "app.log")\<close> before they
  log: with \<^verbatim>\<open>working_dir\<close> unassigned this raises \<^verbatim>\<open>NameError\<close>, with a value that is
  not a string \<^verbatim>\<open>TypeError\<close>, and the exception leaves the handler.
\<close>

definition config_handler :: "env \<Rightarrow> exn \<Rightarrow> json option \<Rightarrow> world \<Rightarrow> config flow" where
  "config_handler env e wd w =
     (case wd of
        None \<Rightarrow> Raise NameError w
      | Some (JStr s) \<Rightarrow>
          fail_exit env
            (if e = JSONDecodeError then ''Invalid JSON in config file on line''
             else ''Unexpected error on line'') e w
      | Some _ \<Rightarrow> Raise TypeError w)"

definition load_config :: "env \<Rightarrow> config_src \<Rightarrow> world \<Rightarrow> config flow" where
  "load_config env config_file w =
     (case config_body env config_file w of
        Inl (e, wd, w') \<Rightarrow> config_handler env e wd w'
      | Inr (cfg, w') \<Rightarrow> Next cfg w')"

subsection \<open>Cleaning the export directory\<close>

text \<open>
  One deletion loop: the entries that satisfy \<open>P\<close> are deleted in the order of the
  listing; the first deletion the host refuses raises, and what was deleted before stays
  deleted. With \<open>isdir\<close> this is the \<^verbatim>\<open>shutil.rmtree\<close> loop of the main script (a
  refused \<^verbatim>\<open>rmtree\<close> is taken to leave its directory as it was), with \<open>isfile\<close> the
  \<^verbatim>\<open>os.remove\<close> loop of \<^verbatim>\<open>delete_files_in_directory\<close>.
\<close>

fun remove_all :: "env \<Rightarrow> (node \<Rightarrow> bool) \<Rightarrow> dir \<Rightarrow> exn option \<times> dir" where
  "remove_all env P [] = (None, [])"
| "remove_all env P ((name, x) # es) =
     (if P x then
        (if rm_fails env name then (Some OSError, (name, x) # es)
         else remove_all env P es)
      else (case remove_all env P es of (r, es') \<Rightarrow> (r, (name, x) # es')))"

definition remove_in :: "env \<Rightarrow> (node \<Rightarrow> bool) \<Rightarrow> string \<Rightarrow> world \<Rightarrow> unit flow" where
  "remove_in env P d w =
     (case disk w d of
        None \<Rightarrow> Raise FileNotFoundError w
      | Some es \<Rightarrow>
          (case remove_all env P es of
             (None, es') \<Rightarrow> Next () (w\<lparr>disk := (disk w)(d \<mapsto> es')\<rparr>)
           | (Some e, es') \<Rightarrow> Raise e (w\<lparr>disk := (disk w)(d \<mapsto> es')\<rparr>)))"

text \<open>
  The error text of \<^verbatim>\<open>delete_files_in_directory\<close> is a plain string, not an f-string:
  the braces are logged as they stand and the text holds no line number.
\<close>

definition delete_files_in_directory :: "env \<Rightarrow> string \<Rightarrow> world \<Rightarrow> unit flow" where
  "delete_files_in_directory env d w =
     try_except
       (and_then (remove_in env isfile d w)
          (\<lambda>_ w'. Next () (log_info ''All files deleted successfully.'' w')))
       (\<lambda>e w'.
          and_then
            (sendEmail env ERROR_SUBJECT
               (log_error ''Error occurred on line {error_line} while deleting files'' None w'))
            (\<lambda>_ w''. Halt 1 w''))"

definition clean_workspace :: "env \<Rightarrow> string \<Rightarrow> world \<Rightarrow> unit flow" where
  "clean_workspace env d w =
     try_except
       (and_then (remove_in env isdir d w) (\<lambda>_ w1.
        and_then (delete_files_in_directory env d w1) (\<lambda>_ w2.
        Next () (log_info ''Old local working files deleted.'' w2))))
       (\<lambda>e w'. fail_exit env ''Unexpected error on line'' e w')"

subsection \<open>Converting the layer files\<close>

text \<open>\<^verbatim>\<open>s.endswith(suf)\<close>, and the output name \<^verbatim>\<open>fn[:-4] + 'kmz'\<close>.\<close>

definition endswith :: "string \<Rightarrow> string \<Rightarrow> bool" where
  "endswith s suf = (length suf \<le> length s \<and> drop (length s - length suf) s = suf)"

definition layer_dest :: "string \<Rightarrow> string" where
  "layer_dest fn = take (length fn - 4) fn @ ''kmz''"

definition BBOX :: string where
  "BBOX = ''3854285.94004372 3350081.56140465 5994554.76153164 4302135.45716181''"

definition conversion_call :: "string \<Rightarrow> string \<Rightarrow> string \<Rightarrow> conv_call" where
  "conversion_call ldir edir fn =
     (ldir @ sep @ fn, edir @ sep @ layer_dest fn, 0, ''NO_COMPOSITE'', BBOX, 1024, 96,
      ''CLAMPED_TO_GROUND'')"

text \<open>
  The converter is not part of the script. What is assumed of it: a call either raises or
  leaves one file of the requested name in the export directory, replacing an entry of
  that name. Every call is recorded with its arguments.
\<close>

definition LayerToKML_conversion :: "env \<Rightarrow> string \<Rightarrow> string \<Rightarrow> string \<Rightarrow> world \<Rightarrow> unit flow" where
  "LayerToKML_conversion env ldir edir fn w =
     (let w' = w\<lparr>conv_calls := conv_calls w @ [conversion_call ldir edir fn]\<rparr> in
      case conv_result env (ldir @ sep @ fn) of
        None \<Rightarrow> Raise ExecuteError w'
      | Some f \<Rightarrow>
          (case disk w' edir of
             None \<Rightarrow> Raise ExecuteError w'
           | Some es \<Rightarrow>
               Next () (w'\<lparr>disk := (disk w')(edir \<mapsto> AList.update (layer_dest fn) (File f) es)\<rparr>)))"

fun convert_loop :: "env \<Rightarrow> string \<Rightarrow> string \<Rightarrow> string list \<Rightarrow> world \<Rightarrow> unit flow" where
  "convert_loop env ldir edir [] w = Next () w"
| "convert_loop env ldir edir (fn # fns) w =
     (if endswith fn ''lyrx'' then
        and_then
          (LayerToKML_conversion env ldir edir fn
             (log_info (edir @ sep @ layer_dest fn) (log_info fn w)))
          (\<lambda>_ w'. convert_loop env ldir edir fns w')
      else convert_loop env ldir edir fns w)"

definition convert_layers :: "env \<Rightarrow> string \<Rightarrow> string \<Rightarrow> world \<Rightarrow> unit flow" where
  "convert_layers env ldir edir w =
     try_except
       (case disk w ldir of
          None \<Rightarrow> Raise FileNotFoundError w
        | Some es \<Rightarrow>
            and_then (convert_loop env ldir edir (map fst es) w)
              (\<lambda>_ w'. Next () (log_info ''KMZ files created.'' w')))
       (\<lambda>e w'. fail_exit env ''Unexpected error on line'' e w')"

subsection \<open>Publishing\<close>

text \<open>
  \<^verbatim>\<open>os.makedirs\<close> on a path that does not exist: the missing parents are made first,
  then the directory itself, which needs its parent to be a directory. The path is
  given last component first. The parents of the remote root are taken to exist.
\<close>

fun makedirs :: "nat \<Rightarrow> remote \<Rightarrow> string list \<Rightarrow> exn + remote" where
  "makedirs d r [] = Inr (r @ [([], RDir d)])"
| "makedirs d r (n # q) =
     (case (if map_of r (rev q) = None then makedirs d r q else Inr r) of
        Inl e \<Rightarrow> Inl e
      | Inr r' \<Rightarrow>
          (case map_of r' (rev q) of
             Some (RDir _) \<Rightarrow> Inr (r' @ [(rev (n # q), RDir d)])
           | _ \<Rightarrow> Inl OSError))"

definition ensure_dir :: "env \<Rightarrow> string list \<Rightarrow> remote \<Rightarrow> exn + remote" where
  "ensure_dir env p r =
     (if map_of r p = None then makedirs (mkdir_date env) r (rev p) else Inr r)"

fun samefile :: "fstat \<Rightarrow> rnode \<Rightarrow> bool" where
  "samefile f (RFile g) = (fst f = fst g)"
| "samefile f (RDir d) = False"

text \<open>
  \<^verbatim>\<open>shutil.move(src_file, dst_dir)\<close>. Into a directory: the file goes under its own name
  and an entry of that name is an error. Onto a path that is a file: the file takes the
  place of that file. Onto a path that does not exist: the file gets that path, which
  needs the parent to be a directory. The source entry is gone afterwards; what the
  file looks like at its new place is the host's \<open>arrive\<close>.
\<close>

definition shutil_move :: "env \<Rightarrow> fstat \<Rightarrow> string list \<Rightarrow> string \<Rightarrow> remote \<Rightarrow> exn + remote" where
  "shutil_move env f p n r =
     (case map_of r p of
        Some (RDir _) \<Rightarrow>
          (if map_of r (p @ [n]) \<noteq> None then Inl ShutilError
           else Inr (r @ [(p @ [n], RFile (arrive env f))]))
      | Some (RFile _) \<Rightarrow> Inr (AList.update p (RFile (arrive env f)) r)
      | None \<Rightarrow>
          (case (if p = [] then Some (RDir 0) else map_of r (butlast p)) of
             Some (RDir _) \<Rightarrow> Inr (r @ [(p, RFile (arrive env f))])
           | _ \<Rightarrow> Inl FileNotFoundError))"

text \<open>
  The body of the inner loop for one regular file: the result says whether the source
  file has left the local directory.
\<close>

definition publish_file :: "env \<Rightarrow> string list \<Rightarrow> string \<Rightarrow> fstat \<Rightarrow> remote \<Rightarrow> exn option \<times> bool \<times> remote" where
  "publish_file env p n f r =
     (case map_of r (p @ [n]) of
        Some x \<Rightarrow>
          (if samefile f x then (None, False, r)
           else
             (case x of
                RDir _ \<Rightarrow> (Some OSError, False, r)
              | RFile _ \<Rightarrow>
                  (case shutil_move env f p n (AList.delete (p @ [n]) r) of
                     Inl e \<Rightarrow> (Some e, False, AList.delete (p @ [n]) r)
                   | Inr r' \<Rightarrow> (None, True, r'))))
      | None \<Rightarrow>
          (case shutil_move env f p n r of
             Inl e \<Rightarrow> (Some e, False, r)
           | Inr r' \<Rightarrow> (None, True, r')))"

text \<open>
  The inner loop over \<open>files\<close>, which \<^verbatim>\<open>os.walk\<close> fills with every entry that is not a
  directory. On an entry that \<^verbatim>\<open>os.stat\<close> cannot read the loop raises: when the
  destination exists \<^verbatim>\<open>os.path.samefile\<close> stats the source; when it does not,
  \<^verbatim>\<open>shutil.move\<close> cannot rename from the local disk to the share and falls back to
  copying, which has to read the entry. (A host that lets \<^verbatim>\<open>shutil.move\<close> make a link
  anew on the share is not modelled.)
\<close>

fun move_files :: "env \<Rightarrow> string list \<Rightarrow> dir \<Rightarrow> remote \<Rightarrow> exn option \<times> dir \<times> remote" where
  "move_files env p [] r = (None, [], r)"
| "move_files env p ((n, Dir d) # es) r =
     (case move_files env p es r of (x, es', r') \<Rightarrow> (x, (n, Dir d) # es', r'))"
| "move_files env p ((n, Other) # es) r = (Some OSError, (n, Other) # es, r)"
| "move_files env p ((n, File f) # es) r =
     (case publish_file env p n f r of
        (Some e, moved, r') \<Rightarrow> (Some e, (n, File f) # es, r')
      | (None, moved, r') \<Rightarrow>
          (case move_files env p es r' of
             (x, es', r'') \<Rightarrow> (x, (if moved then es' else (n, File f) # es'), r'')))"

text \<open>
  \<^verbatim>\<open>os.walk\<close>, top down: a directory is listed, its files are handled, then its
  subdirectories are walked in turn. The result is the local directory as the walk
  leaves it: the entries that stayed and are not directories, then the subdirectories.
\<close>

fun walk_dir :: "env \<Rightarrow> string list \<Rightarrow> dir \<Rightarrow> remote \<Rightarrow> exn option \<times> dir \<times> remote"
  and walk_subdirs :: "env \<Rightarrow> string list \<Rightarrow> dir \<Rightarrow> remote \<Rightarrow> exn option \<times> dir \<times> remote" where
  "walk_dir env p es r =
     (case ensure_dir env p r of
        Inl e \<Rightarrow> (Some e, es, r)
      | Inr r1 \<Rightarrow>
          (case move_files env p es r1 of
             (Some e, es1, r2) \<Rightarrow> (Some e, es1, r2)
           | (None, es1, r2) \<Rightarrow>
               (case walk_subdirs env p es r2 of
                  (x, ds, r3) \<Rightarrow> (x, filter (\<lambda>(n, y). \<not> isdir y) es1 @ ds, r3))))"
| "walk_subdirs env p [] r = (None, [], r)"
| "walk_subdirs env p ((n, File f) # es) r = walk_subdirs env p es r"
| "walk_subdirs env p ((n, Other) # es) r = walk_subdirs env p es r"
| "walk_subdirs env p ((n, Dir d) # es) r =
     (case walk_dir env (p @ [n]) d r of
        (Some e, d', r') \<Rightarrow> (Some e, (n, Dir d') # filter (\<lambda>(n, y). isdir y) es, r')
      | (None, d', r') \<Rightarrow>
          (case walk_subdirs env p es r' of
             (x, ds, r'') \<Rightarrow> (x, (n, Dir d') # ds, r'')))"

text \<open>
  The publisher is not inside a \<^verbatim>\<open>try\<close>: what it raises ends the process. \<^verbatim>\<open>os.walk\<close>
  on a directory that cannot be listed yields nothing.
\<close>

definition publish :: "env \<Rightarrow> string \<Rightarrow> world \<Rightarrow> unit flow" where
  "publish env edir w =
     (case disk w edir of
        None \<Rightarrow> Next () w
      | Some es \<Rightarrow>
          (case drives w ''N:'' of
             None \<Rightarrow> Raise FileNotFoundError w
           | Some share \<Rightarrow>
               (case walk_dir env [] es (shares w share) of
                  (x, es', r') \<Rightarrow>
                    (let w' = w\<lparr>disk := (disk w)(edir \<mapsto> es'),
                                shares := (shares w)(share := r')\<rparr>
                     in case x of None \<Rightarrow> Next () w' | Some e \<Rightarrow> Raise e w'))))"

subsection \<open>Verifying\<close>

text \<open>
  \<^verbatim>\<open>os.listdir\<close> of the remote directory: the names directly below it.
\<close>

definition listdir_remote :: "remote \<Rightarrow> string list" where
  "listdir_remote r = map (\<lambda>(p, x). hd p) (filter (\<lambda>(p, x). length p = 1) r)"

fun cdate :: "rnode \<Rightarrow> nat" where
  "cdate (RFile f) = snd f"
| "cdate (RDir d) = d"

text \<open>
  The loop over the listing. It returns the flag \<^verbatim>\<open>all_files_correct\<close>; the
  \<^verbatim>\<open>break\<close> is the branch without a recursive call. \<^verbatim>\<open>os.path.getctime\<close> raises on a
  name that is not there.
\<close>

fun verify_loop :: "nat \<Rightarrow> remote \<Rightarrow> string list \<Rightarrow> world \<Rightarrow> bool flow" where
  "verify_loop tday r [] w = Next True w"
| "verify_loop tday r (name # names) w =
     (if endswith name ''.kmz'' then
        (case map_of r [name] of
           None \<Rightarrow> Raise FileNotFoundError w
         | Some x \<Rightarrow>
             (if cdate x = tday
              then verify_loop tday r names
                     (log_info (''File transfer was successful for '' @ name) w)
              else Next False w))
      else verify_loop tday r names w)"

definition verify :: "env \<Rightarrow> world \<Rightarrow> unit flow" where
  "verify env w =
     (case drives w ''N:'' of
        None \<Rightarrow> Raise FileNotFoundError w
      | Some share \<Rightarrow>
          (case map_of (shares w share) [] of
             Some (RDir _) \<Rightarrow>
               and_then (verify_loop (today env) (shares w share)
                           (listdir_remote (shares w share)) w)
                 (\<lambda>all_files_correct w'.
                    if \<not> all_files_correct
                    then and_then (sendEmail env ERROR_SUBJECT w') (\<lambda>_ w''. Halt 1 w'')
                    else Next () w')
           | _ \<Rightarrow> Raise FileNotFoundError w))"

subsection \<open>The script\<close>

text \<open>
  The script in three parts: everything up to the binding of \<^verbatim>\<open>N:\<close>, the publisher
  with the verifier, and the reset of the drive letters with the success mail.
\<close>

definition prepare :: "env \<Rightarrow> config_src \<Rightarrow> world \<Rightarrow> config flow" where
  "prepare env config_file w =
     and_then (load_config env config_file w) (\<lambda>cfg w1.
     and_then (clean_workspace env (export_dir cfg) w1) (\<lambda>_ w2.
     and_then (convert_layers env (layer_dir cfg) (export_dir cfg) w2) (\<lambda>_ w3.
     and_then (unmap_network_drive env ''J:'' w3) (\<lambda>_ w4.
     and_then (map_network_drive env ''N:'' (n_drive cfg) w4) (\<lambda>_ w5.
     Next cfg w5)))))"

definition publish_and_verify :: "env \<Rightarrow> string \<Rightarrow> world \<Rightarrow> unit flow" where
  "publish_and_verify env edir w =
     and_then (publish env edir w) (\<lambda>_ w'. verify env w')"

definition reset_and_report :: "env \<Rightarrow> world \<Rightarrow> unit flow" where
  "reset_and_report env w =
     and_then (unmap_network_drive env ''N:'' w) (\<lambda>_ w1.
     and_then (map_network_drive env ''J:'' (JStr J_ARCHIVE) w1) (\<lambda>_ w2.
     and_then (sendEmail env SUCCESS_SUBJECT w2) (\<lambda>_ w3.
     Next () (log_info ''EOF - processing complete.'' w3))))"

definition script :: "env \<Rightarrow> config_src \<Rightarrow> world \<Rightarrow> unit flow" where
  "script env config_file w =
     and_then (prepare env config_file w) (\<lambda>cfg w1.
     and_then (publish_and_verify env (export_dir cfg) w1) (\<lambda>_ w2.
     reset_and_report env w2))"

fun finish :: "unit flow \<Rightarrow> outcome \<times> world" where
  "finish (Next u w) = (Exit 0, w)"
| "finish (Halt n w) = (Exit n, w)"
| "finish (Raise e w) = (Uncaught e, w)"

definition main :: "env \<Rightarrow> config_src \<Rightarrow> world \<Rightarrow> outcome \<times> world" where
  "main env config_file w = finish (script env config_file w)"

subsection \<open>A concrete host\<close>

text \<open>
  A host on which everything succeeds, and an empty machine: no drive letter bound, no
  directory, nothing logged, nothing mailed. The concrete runs below vary them.
\<close>

definition env0 :: env where
  "env0 = \<lparr>today = 5, log_openable = (\<lambda>_. True), conv_result = (\<lambda>_. Some (1, 5)),
           net_bind_ok = (\<lambda>_ _. True), net_unbind_ok = (\<lambda>_. True), rm_fails = (\<lambda>_. False),
           smtp_ok = True, arrive = (\<lambda>f. f), mkdir_date = 5, tb_line = (\<lambda>_. 0)\<rparr>"

definition w0 :: world where
  "w0 = \<lparr>drives = (\<lambda>_. None), disk = (\<lambda>_. None), shares = (\<lambda>_. []), conv_calls = [],
         logged = [], outbox = []\<rparr>"

definition w_bound :: world where
  "w_bound = log_info ''Drive N: has been mapped'' (w0\<lparr>drives := (drives w0)(''N:'' \<mapsto> ''srv'')\<rparr>)"

definition w_stale :: world where
  "w_stale = w0\<lparr>disk := (disk w0)(''E'' \<mapsto>
     [(''old'', Dir [(''a.kmz'', File (3, 1))]), (''b.kmz'', File (4, 1)), (''c.txt'', File (6, 1))])\<rparr>"

text \<open>
  The same export directory holding, beside a stale folder and a loose file, a link whose
  target is gone.
\<close>

definition w_odd :: world where
  "w_odd = w0\<lparr>disk := (disk w0)(''E'' \<mapsto>
     [(''old'', Dir [(''a.kmz'', File (3, 1))]), (''lnk'', Other), (''b.kmz'', File (4, 1))])\<rparr>"

text \<open>
  Whether a piece of the script falls through to the next statement, and the state it
  leaves.
\<close>

fun proceeds :: "'a flow \<Rightarrow> bool" where
  "proceeds (Next a w) = True"
| "proceeds (Halt n w) = False"
| "proceeds (Raise e w) = False"

fun world_of :: "'a flow \<Rightarrow> world" where
  "world_of (Next a w) = w"
| "world_of (Halt n w) = w"
| "world_of (Raise e w) = w"

text \<open>
  A configuration with empty connection strings and no drive mappings, and two
  configurations that differ in \<^verbatim>\<open>j_drive\<close> only.
\<close>

definition cfg_lax :: json where
  "cfg_lax = JDict [(''working_dir'', JStr ''W''), (''sde_dir'', JStr ''''),
                    (''prd_conn'', JStr '''')]"

definition kvs_a :: "(string \<times> json) list" where
  "kvs_a = [(''working_dir'', JStr ''W''), (''sde_dir'', JStr ''s''), (''prd_conn'', JStr ''p''),
            (''drive_mappings'', JDict [(''j_drive'', JStr ''ja''), (''n_drive'', JStr ''srv'')])]"

definition kvs_b :: "(string \<times> json) list" where
  "kvs_b = [(''working_dir'', JStr ''W''), (''sde_dir'', JStr ''s''), (''prd_conn'', JStr ''p''),
            (''drive_mappings'', JDict [(''j_drive'', JNum 7), (''n_drive'', JStr ''srv'')])]"

text \<open>
  For stating what the verifier does: the names it looks at, whether a name is dated
  \<open>tday\<close>, and the records the loop writes for a list of names.
\<close>

definition kmz_names :: "remote \<Rightarrow> string list" where
  "kmz_names r = filter (\<lambda>n. endswith n ''.kmz'') (listdir_remote r)"

definition dated :: "nat \<Rightarrow> remote \<Rightarrow> string \<Rightarrow> bool" where
  "dated tday r n = (case map_of r [n] of None \<Rightarrow> False | Some x \<Rightarrow> cdate x = tday)"

definition transfer_logs :: "string list \<Rightarrow> log_entry list" where
  "transfer_logs ns = map (\<lambda>n. Info (''File transfer was successful for '' @ n)) ns"

text \<open>
  A machine with \<^verbatim>\<open>N:\<close> bound and three published files, the second of them stale, and
  the same machine with all three dated today.
\<close>

definition w_remote :: world where
  "w_remote = w0\<lparr>drives := (drives w0)(''N:'' \<mapsto> ''srv''),
                 shares := (shares w0)(''srv'' :=
                   [([], RDir 1), ([''a.kmz''], RFile (1, 5)), ([''b.kmz''], RFile (2, 4)),
                    ([''c.kmz''], RFile (3, 5))])\<rparr>"

definition w_fresh :: world where
  "w_fresh = w0\<lparr>drives := (drives w0)(''N:'' \<mapsto> ''srv''),
                shares := (shares w0)(''srv'' :=
                  [([], RDir 1), ([''a.kmz''], RFile (1, 5)), ([''b.kmz''], RFile (2, 5)),
                   ([''notes.txt''], RFile (3, 2))])\<rparr>"

text \<open>
  For stating where a run stops: the script up to and including the verifier, up to and
  including the release of \<^verbatim>\<open>N:\<close>, and up to and including the rebinding of \<^verbatim>\<open>J:\<close>.
\<close>

definition upto_verify :: "env \<Rightarrow> config_src \<Rightarrow> world \<Rightarrow> unit flow" where
  "upto_verify env config_file w =
     and_then (prepare env config_file w) (\<lambda>cfg w1. publish_and_verify env (export_dir cfg) w1)"

definition upto_unbind :: "env \<Rightarrow> config_src \<Rightarrow> world \<Rightarrow> unit flow" where
  "upto_unbind env config_file w =
     and_then (upto_verify env config_file w) (\<lambda>_ w2. unmap_network_drive env ''N:'' w2)"

definition upto_rebind :: "env \<Rightarrow> config_src \<Rightarrow> world \<Rightarrow> unit flow" where
  "upto_rebind env config_file w =
     and_then (upto_unbind env config_file w) (\<lambda>_ w3. map_network_drive env ''J:'' (JStr J_ARCHIVE) w3)"

text \<open>Whether a piece of the script, if it leaves the process, leaves it with status 1.\<close>

fun exits_1 :: "'a flow \<Rightarrow> bool" where
  "exits_1 (Next a w) = True"
| "exits_1 (Halt n w) = (n = 1)"
| "exits_1 (Raise e w) = True"

text \<open>
  A host that refuses to bind \<^verbatim>\<open>J:\<close>; a machine with an empty export directory and one
  layer file; the same machine with a stale file already on the share.
\<close>

definition env_jfail :: env where
  "env_jfail = env0\<lparr>net_bind_ok := (\<lambda>d p. d \<noteq> ''J:'')\<rparr>"

definition w_run :: world where
  "w_run = w0\<lparr>disk := (disk w0)(''W'' @ sep @ ''KMZ_Exports'' \<mapsto> [],
                                 ''W'' @ sep @ ''LayerFiles'' \<mapsto> [(''a.lyrx'', File (9, 1))])\<rparr>"

definition w_old :: world where
  "w_old = w_run\<lparr>shares := (shares w_run)(''srv'' := [([], RDir 1), ([''old.kmz''], RFile (8, 4))])\<rparr>"

text \<open>
  Hosts on which one command fails: binding \<^verbatim>\<open>N:\<close>, releasing any letter, removing the
  file \<^verbatim>\<open>b.kmz\<close>. A machine on which \<^verbatim>\<open>J:\<close> is bound, and one with a loose file in the
  export directory.
\<close>

definition env_nfail :: env where
  "env_nfail = env0\<lparr>net_bind_ok := (\<lambda>d p. d \<noteq> ''N:'')\<rparr>"

definition env_ufail :: env where
  "env_ufail = env0\<lparr>net_unbind_ok := (\<lambda>d. False)\<rparr>"

definition env_rmfail :: env where
  "env_rmfail = env0\<lparr>rm_fails := (\<lambda>n. n = ''b.kmz'')\<rparr>"

definition w_jbound :: world where
  "w_jbound = w_run\<lparr>drives := (drives w_run)(''J:'' \<mapsto> ''arch'')\<rparr>"

definition w_locked :: world where
  "w_locked = w_run\<lparr>disk := (disk w_run)(''W'' @ sep @ ''KMZ_Exports'' \<mapsto> [(''b.kmz'', File (4, 1))])\<rparr>"

text \<open>The records of level \<^verbatim>\<open>ERROR\<close>.\<close>

fun is_error :: "log_entry \<Rightarrow> bool" where
  "is_error (Info s) = False"
| "is_error (Error s l) = True"





section \<open>Properties\<close>

subsection \<open>Drive mapping\<close>

lemma map_bound_noop:
  "drives w d \<noteq> None \<Longrightarrow> map_network_drive env d p w = Next () w"
  by (simp add: map_network_drive_def is_drive_mapped_def try_except_def)

lemma map_success_bound:
  "map_network_drive env d p w = Next () w' \<Longrightarrow> drives w' d \<noteq> None"
  by (auto simp: map_network_drive_def is_drive_mapped_def try_except_def and_then_def
      net_use_bind_def log_info_def split: if_splits json.splits flow.splits)

text \<open>
  C6. Binding is idempotent. When the letter is already bound, \<^verbatim>\<open>map_network_drive\<close>
  issues no command and changes nothing. When a call returns, the letter is bound, and a
  second call, with whatever path, returns the very same state.
\<close>

theorem map_network_drive_idempotent:
  "(drives w d \<noteq> None \<longrightarrow> map_network_drive env d p w = Next () w) \<and>
   (map_network_drive env d p w = Next () w' \<longrightarrow>
      drives w' d \<noteq> None \<and> map_network_drive env d p' w' = Next () w')"
  using map_bound_noop map_success_bound by blast

theorem map_network_drive_idempotent_witness:
  "drives w_bound ''N:'' \<noteq> None \<and>
   map_network_drive env0 ''N:'' (JStr ''srv'') w0 = Next () w_bound \<and>
   map_network_drive env0 ''N:'' (JStr ''srv'') w_bound = Next () w_bound"
proof -
  have h: "map_network_drive env0 ''N:'' (JStr ''srv'') w0 = Next () w_bound"
    by (simp add: map_network_drive_def is_drive_mapped_def try_except_def and_then_def
        net_use_bind_def env0_def w0_def w_bound_def)
  from map_network_drive_idempotent [of w0 "''N:''" env0 "JStr ''srv''" w_bound "JStr ''srv''"] h
  show ?thesis by simp
qed

text \<open>
  C7. Unbinding a letter that is not bound does nothing but log that the drive is not
  mapped: the call returns, it neither exits nor raises, and the bindings, the
  directories and the mails are as before.
\<close>

theorem unmap_unbound_noop:
  assumes "drives w d = None"
  shows "unmap_network_drive env d w = Next () (log_info (''Drive '' @ d @ '' is not mapped.'') w)
       \<and> drives (log_info (''Drive '' @ d @ '' is not mapped.'') w) = drives w
       \<and> disk (log_info (''Drive '' @ d @ '' is not mapped.'') w) = disk w
       \<and> shares (log_info (''Drive '' @ d @ '' is not mapped.'') w) = shares w
       \<and> outbox (log_info (''Drive '' @ d @ '' is not mapped.'') w) = outbox w"
  using assms by (simp add: unmap_network_drive_def is_drive_mapped_def log_info_def)

theorem unmap_unbound_noop_witness:
  "drives w0 ''J:'' = None \<and>
   unmap_network_drive env0 ''J:'' w0 = Next () (log_info ''Drive J: is not mapped.'' w0) \<and>
   drives (log_info ''Drive J: is not mapped.'' w0) = drives w0"
proof -
  have h: "drives w0 ''J:'' = None" by (simp add: w0_def)
  from unmap_unbound_noop [OF h, of env0] h show ?thesis by simp
qed

subsection \<open>The workspace cleaner\<close>

lemma remove_all_ok:
  "remove_all env P es = (None, es') \<Longrightarrow> es' = filter (\<lambda>(n, x). \<not> P x) es"
  by (induction es arbitrary: es') (auto split: if_splits prod.splits)

lemma remove_in_Next:
  assumes "remove_in env P d w = Next u w'"
  shows "\<exists>es. disk w d = Some es \<and> w' = w\<lparr>disk := (disk w)(d \<mapsto> filter (\<lambda>(n, x). \<not> P x) es)\<rparr>"
  using assms
  by (auto simp: remove_in_def split: option.splits prod.splits dest: remove_all_ok)

lemma filter_both:
  "filter (\<lambda>(n, x). \<not> isfile x) (filter (\<lambda>(n, x). \<not> isdir x) es) =
   filter (\<lambda>(n, x). \<not> isfile x \<and> \<not> isdir x) es"
  by (induction es) auto

lemma filter_neither_no_file:
  "filter (\<lambda>(n, x). isfile x) (filter (\<lambda>(n, x). \<not> isfile x \<and> \<not> isdir x) es) = []"
  by (induction es) auto

lemma filter_neither_no_dir:
  "filter (\<lambda>(n, x). isdir x) (filter (\<lambda>(n, x). \<not> isfile x \<and> \<not> isdir x) es) = []"
  by (induction es) auto

lemma delete_files_Next:
  assumes "delete_files_in_directory env d w = Next u w'"
  shows "\<exists>es. disk w d = Some es \<and> disk w' d = Some (filter (\<lambda>(n, x). \<not> isfile x) es)"
proof -
  from assms obtain w1 where "remove_in env isfile d w = Next () w1"
    and w': "w' = log_info ''All files deleted successfully.'' w1"
    by (auto simp: delete_files_in_directory_def try_except_def and_then_def sendEmail_def
        split: flow.splits if_splits)
  from remove_in_Next[OF this(1)] w' show ?thesis by (auto simp: log_info_def)
qed

text \<open>
  C3, as the specification states it, fails: the \<^verbatim>\<open>rmtree\<close> loop takes the entries for
  which \<^verbatim>\<open>os.path.isdir\<close> holds, \<^verbatim>\<open>delete_files_in_directory\<close> those for which
  \<^verbatim>\<open>os.path.isfile\<close> holds, and neither has an \<^verbatim>\<open>else\<close>. On a directory with a stale
  folder, a link whose target is gone and a loose file, the cleaner runs to its end,
  logs that all files were deleted, and the link is still there.
\<close>

theorem clean_workspace_leaves_other:
  "proceeds (clean_workspace env0 ''E'' w_odd) \<and>
   disk (world_of (clean_workspace env0 ''E'' w_odd)) ''E'' = Some [(''lnk'', Other)] \<and>
   logged (world_of (clean_workspace env0 ''E'' w_odd)) =
     [Info ''All files deleted successfully.'', Info ''Old local working files deleted.'']"
  by (simp add: clean_workspace_def delete_files_in_directory_def remove_in_def
      try_except_def and_then_def env0_def w0_def w_odd_def log_info_def)

text \<open>
  C3, amended. When the cleaning block of the main script runs to its end, the export
  directory is still there and holds exactly those of its former entries that are
  neither a regular file nor a directory for \<^verbatim>\<open>os.path\<close>, in their former order: no
  regular file and no subdirectory is left.
\<close>

theorem clean_workspace_removes_files_and_dirs:
  assumes "clean_workspace env d w = Next u w'"
  shows "\<exists>es es'. disk w d = Some es \<and> disk w' d = Some es' \<and>
           es' = filter (\<lambda>(n, x). \<not> isfile x \<and> \<not> isdir x) es \<and>
           filter (\<lambda>(n, x). isfile x) es' = [] \<and>
           filter (\<lambda>(n, x). isdir x) es' = []"
proof -
  from assms obtain w1 w2 where 1: "remove_in env isdir d w = Next () w1"
    and 2: "delete_files_in_directory env d w1 = Next () w2"
    and w': "w' = log_info ''Old local working files deleted.'' w2"
    by (auto simp: clean_workspace_def try_except_def and_then_def fail_exit_def sendEmail_def
        split: flow.splits if_splits)
  from remove_in_Next[OF 1] obtain es where
    e0: "disk w d = Some es" and
    e1: "disk w1 d = Some (filter (\<lambda>(n, x). \<not> isdir x) es)" by auto
  from delete_files_Next[OF 2] obtain es1 where
    e2: "disk w1 d = Some es1" "disk w2 d = Some (filter (\<lambda>(n, x). \<not> isfile x) es1)" by auto
  from e1 e2(1) have "es1 = filter (\<lambda>(n, x). \<not> isdir x) es" by simp
  with e2(2) have "disk w2 d = Some (filter (\<lambda>(n, x). \<not> isfile x \<and> \<not> isdir x) es)"
    by (simp only: filter_both)
  with w' have "disk w' d = Some (filter (\<lambda>(n, x). \<not> isfile x \<and> \<not> isdir x) es)"
    by (simp add: log_info_def)
  with e0 filter_neither_no_file [of es] filter_neither_no_dir [of es] show ?thesis
    by blast
qed

theorem clean_workspace_removes_files_and_dirs_witness:
  "clean_workspace env0 ''E'' w_stale =
     Next () (log_info ''Old local working files deleted.''
               (log_info ''All files deleted successfully.''
                 (w_stale\<lparr>disk := (disk w_stale)(''E'' \<mapsto> [])\<rparr>))) \<and>
   disk w_stale ''E'' =
     Some [(''old'', Dir [(''a.kmz'', File (3, 1))]), (''b.kmz'', File (4, 1)),
           (''c.txt'', File (6, 1))] \<and>
   disk (log_info ''Old local working files deleted.''
          (log_info ''All files deleted successfully.''
            (w_stale\<lparr>disk := (disk w_stale)(''E'' \<mapsto> [])\<rparr>))) ''E'' = Some []"
proof -
  have h: "clean_workspace env0 ''E'' w_stale =
     Next () (log_info ''Old local working files deleted.''
               (log_info ''All files deleted successfully.''
                 (w_stale\<lparr>disk := (disk w_stale)(''E'' \<mapsto> [])\<rparr>)))"
    by (simp add: clean_workspace_def delete_files_in_directory_def remove_in_def
        try_except_def and_then_def env0_def w0_def w_stale_def log_info_def)
  have d: "disk w_stale ''E'' =
     Some [(''old'', Dir [(''a.kmz'', File (3, 1))]), (''b.kmz'', File (4, 1)),
           (''c.txt'', File (6, 1))]"
    by (simp add: w_stale_def)
  from clean_workspace_removes_files_and_dirs [OF h] obtain es es' where
    a: "disk w_stale ''E'' = Some es" and
    b: "disk (log_info ''Old local working files deleted.''
          (log_info ''All files deleted successfully.''
            (w_stale\<lparr>disk := (disk w_stale)(''E'' \<mapsto> [])\<rparr>))) ''E'' = Some es'" and
    c: "es' = filter (\<lambda>(n, x). \<not> isfile x \<and> \<not> isdir x) es"
    by blast
  from a d have "es = [(''old'', Dir [(''a.kmz'', File (3, 1))]), (''b.kmz'', File (4, 1)),
           (''c.txt'', File (6, 1))]" by simp
  with c have "es' = []" by simp
  with b have "disk (log_info ''Old local working files deleted.''
          (log_info ''All files deleted successfully.''
            (w_stale\<lparr>disk := (disk w_stale)(''E'' \<mapsto> [])\<rparr>))) ''E'' = Some []" by simp
  with h d show ?thesis by blast
qed

subsection \<open>Sequencing\<close>

lemma and_then_Next [simp]: "and_then (Next a w) k = k a w"
  by (simp add: and_then_def)

lemma and_then_Halt [simp]: "and_then (Halt n w) k = Halt n w"
  by (simp add: and_then_def)

lemma and_then_Raise [simp]: "and_then (Raise e w) k = Raise e w"
  by (simp add: and_then_def)

lemma and_then_assoc: "and_then (and_then m k) h = and_then m (\<lambda>a w. and_then (k a w) h)"
  by (cases m) simp_all

lemma script_from_config:
  "script env src w =
     and_then (load_config env src w) (\<lambda>cfg w1.
     and_then (clean_workspace env (export_dir cfg) w1) (\<lambda>_ w2.
     and_then (convert_layers env (layer_dir cfg) (export_dir cfg) w2) (\<lambda>_ w3.
     and_then (unmap_network_drive env ''J:'' w3) (\<lambda>_ w4.
     and_then (map_network_drive env ''N:'' (n_drive cfg) w4) (\<lambda>_ w5.
     and_then (publish_and_verify env (export_dir cfg) w5) (\<lambda>_ w6.
     reset_and_report env w6))))))"
  by (simp add: script_def prepare_def and_then_assoc)

subsection \<open>Loading the configuration\<close>

lemma dict_get_dict: "dict_get d k x = Inr v \<Longrightarrow> \<exists>kvs. d = JDict kvs"
  by (cases d) auto

lemma handler_not_proceeds: "\<not> proceeds (config_handler env e wd w)"
  by (auto simp: config_handler_def fail_exit_def and_then_def sendEmail_def
      split: option.splits json.splits)

lemma handler_exit: "config_handler env e wd w = Halt n w' \<Longrightarrow> n = 1"
  by (auto simp: config_handler_def fail_exit_def and_then_def sendEmail_def
      split: option.splits json.splits if_splits)

lemma load_proceeds_body:
  "proceeds (load_config env src w) \<longleftrightarrow> (\<exists>cfg w'. config_body env src w = Inr (cfg, w'))"
  by (auto simp: load_config_def handler_not_proceeds split: sum.splits)

lemma body_Inr_iff:
  "(\<exists>cfg w'. config_body env src w = Inr (cfg, w')) \<longleftrightarrow>
   (\<exists>kvs s. src = Parsed (JDict kvs) \<and> map_of kvs ''working_dir'' = Some (JStr s) \<and> s \<noteq> [] \<and>
      log_openable env s \<and> map_of kvs ''sde_dir'' \<noteq> None \<and> map_of kvs ''prd_conn'' \<noteq> None \<and>
      (\<forall>dm. map_of kvs ''drive_mappings'' = Some dm \<longrightarrow> (\<exists>kv. dm = JDict kv)))"
proof (cases src)
  case (Parsed data)
  show ?thesis
  proof (cases data)
    case (JDict kvs)
    show ?thesis
      unfolding Parsed JDict config_body_def
      by (auto simp: Let_def split: option.splits json.splits sum.splits if_splits
          dest: dict_get_dict)
  qed (simp_all add: Parsed config_body_def)
qed (simp_all add: config_body_def)

lemma load_fails_exit_1:
  assumes "\<not> proceeds (load_config env src w)"
  shows "exit_code (fst (main env src w)) = 1"
proof (cases "load_config env src w")
  case (Next cfg w1)
  with assms show ?thesis by simp
next
  case (Halt n w1)
  then have "n = 1"
    by (auto simp: load_config_def split: sum.splits dest: handler_exit)
  with Halt show ?thesis by (simp add: main_def script_from_config)
next
  case (Raise e w1)
  then show ?thesis by (simp add: main_def script_from_config)
qed

text \<open>
  C8, as the claim states it, fails: with the two connection strings empty and no drive
  mappings at all, configuration loading falls through to the rest of the script.
\<close>

theorem load_config_accepts_empty_fields:
  "subscript cfg_lax ''sde_dir'' = Inr (JStr []) \<and>
   subscript cfg_lax ''prd_conn'' = Inr (JStr []) \<and>
   dict_get cfg_lax ''drive_mappings'' (JDict []) = Inr (JDict []) \<and>
   proceeds (load_config env0 (Parsed cfg_lax) w0)"
  by (simp add: load_config_def config_body_def cfg_lax_def env0_def Let_def)

text \<open>
  C8, amended. Configuration loading falls through exactly when the file parses to a
  dictionary whose \<^verbatim>\<open>working_dir\<close> is a non-empty string (under which the log file can be
  opened), whose \<^verbatim>\<open>sde_dir\<close> and \<^verbatim>\<open>prd_conn\<close> keys are present, and whose
  \<^verbatim>\<open>drive_mappings\<close>, when present, is a dictionary. So a missing or empty working
  directory and a missing connection key are fatal, with exit status 1; an empty
  connection string and a missing or empty drive-mapping path are not checked.
\<close>

theorem load_config_gate:
  "(proceeds (load_config env src w) \<longleftrightarrow>
     (\<exists>kvs s. src = Parsed (JDict kvs) \<and> map_of kvs ''working_dir'' = Some (JStr s) \<and> s \<noteq> [] \<and>
        log_openable env s \<and> map_of kvs ''sde_dir'' \<noteq> None \<and> map_of kvs ''prd_conn'' \<noteq> None \<and>
        (\<forall>dm. map_of kvs ''drive_mappings'' = Some dm \<longrightarrow> (\<exists>kv. dm = JDict kv)))) \<and>
   (\<not> proceeds (load_config env src w) \<longrightarrow> exit_code (fst (main env src w)) = 1)"
  using load_proceeds_body [of env src w] body_Inr_iff [of env src w] load_fails_exit_1 [of env src w]
  by blast

theorem load_config_gate_witness:
  "proceeds (load_config env0 (Parsed (JDict kvs_a)) w0) \<and>
   \<not> proceeds (load_config env0 (Parsed (JDict [(''sde_dir'', JStr ''s'')])) w0) \<and>
   exit_code (fst (main env0 (Parsed (JDict [(''sde_dir'', JStr ''s'')])) w0)) = 1"
proof -
  have a: "\<exists>kvs s. Parsed (JDict kvs_a) = Parsed (JDict kvs) \<and>
      map_of kvs ''working_dir'' = Some (JStr s) \<and> s \<noteq> [] \<and> log_openable env0 s \<and>
      map_of kvs ''sde_dir'' \<noteq> None \<and> map_of kvs ''prd_conn'' \<noteq> None \<and>
      (\<forall>dm. map_of kvs ''drive_mappings'' = Some dm \<longrightarrow> (\<exists>kv. dm = JDict kv))"
    by (simp add: kvs_a_def env0_def)
  have b: "\<not> (\<exists>kvs s. Parsed (JDict [(''sde_dir'', JStr ''s'')]) = Parsed (JDict kvs) \<and>
      map_of kvs ''working_dir'' = Some (JStr s) \<and> s \<noteq> [] \<and> log_openable env0 s \<and>
      map_of kvs ''sde_dir'' \<noteq> None \<and> map_of kvs ''prd_conn'' \<noteq> None \<and>
      (\<forall>dm. map_of kvs ''drive_mappings'' = Some dm \<longrightarrow> (\<exists>kv. dm = JDict kv)))"
    by simp
  from load_config_gate [of env0 "Parsed (JDict kvs_a)" w0] a
    load_config_gate [of env0 "Parsed (JDict [(''sde_dir'', JStr ''s'')])" w0] b
  show ?thesis by blast
qed

subsection \<open>The configured J: path\<close>

lemma load_config_j_drive:
  assumes "\<forall>k. k \<noteq> ''drive_mappings'' \<longrightarrow> map_of kvs k = map_of kvs' k"
    and "map_of kvs ''drive_mappings'' = Some (JDict dm)"
    and "map_of kvs' ''drive_mappings'' = Some (JDict dm')"
    and "\<forall>k. k \<noteq> ''j_drive'' \<longrightarrow> map_of dm k = map_of dm' k"
  shows "load_config env (Parsed (JDict kvs')) w =
     (case load_config env (Parsed (JDict kvs)) w of
        Next cfg w1 \<Rightarrow>
          Next (cfg\<lparr>j_drive := (case map_of dm' ''j_drive'' of None \<Rightarrow> JNull | Some v \<Rightarrow> v)\<rparr>) w1
      | Halt n w1 \<Rightarrow> Halt n w1
      | Raise e w1 \<Rightarrow> Raise e w1)"
proof -
  have a: "map_of kvs' ''working_dir'' = map_of kvs ''working_dir''"
    "map_of kvs' ''sde_dir'' = map_of kvs ''sde_dir''"
    "map_of kvs' ''prd_conn'' = map_of kvs ''prd_conn''"
    using assms(1) by simp_all
  have b: "map_of dm' ''n_drive'' = map_of dm ''n_drive''"
    using assms(4) by simp
  show ?thesis
    unfolding load_config_def config_body_def
    by (simp add: a b assms(2,3) Let_def config_handler_def fail_exit_def sendEmail_def
        split: option.splits json.splits if_splits)
qed

text \<open>
  C10. Two configuration files that agree on every key except \<^verbatim>\<open>j_drive\<close> inside
  \<^verbatim>\<open>drive_mappings\<close> give the same run: the same outcome and the same final state, on
  every host and from every starting state. The value is read into a variable that
  nothing reads; the final binding of \<^verbatim>\<open>J:\<close> takes the constant path.
\<close>

theorem main_ignores_j_drive:
  assumes "\<forall>k. k \<noteq> ''drive_mappings'' \<longrightarrow> map_of kvs k = map_of kvs' k"
    and "map_of kvs ''drive_mappings'' = Some (JDict dm)"
    and "map_of kvs' ''drive_mappings'' = Some (JDict dm')"
    and "\<forall>k. k \<noteq> ''j_drive'' \<longrightarrow> map_of dm k = map_of dm' k"
  shows "main env (Parsed (JDict kvs)) w = main env (Parsed (JDict kvs')) w"
  unfolding main_def script_from_config load_config_j_drive[OF assms]
  by (cases "load_config env (Parsed (JDict kvs)) w") simp_all

theorem main_ignores_j_drive_witness:
  "map_of kvs_a ''drive_mappings'' = Some (JDict [(''j_drive'', JStr ''ja''), (''n_drive'', JStr ''srv'')]) \<and>
   map_of kvs_b ''drive_mappings'' = Some (JDict [(''j_drive'', JNum 7), (''n_drive'', JStr ''srv'')]) \<and>
   main env0 (Parsed (JDict kvs_a)) w_stale = main env0 (Parsed (JDict kvs_b)) w_stale"
proof -
  have 1: "\<forall>k. k \<noteq> ''drive_mappings'' \<longrightarrow> map_of kvs_a k = map_of kvs_b k"
    by (simp add: kvs_a_def kvs_b_def)
  have 2: "map_of kvs_a ''drive_mappings'' =
      Some (JDict [(''j_drive'', JStr ''ja''), (''n_drive'', JStr ''srv'')])"
    by (simp add: kvs_a_def)
  have 3: "map_of kvs_b ''drive_mappings'' =
      Some (JDict [(''j_drive'', JNum 7), (''n_drive'', JStr ''srv'')])"
    by (simp add: kvs_b_def)
  have 4: "\<forall>k. k \<noteq> ''j_drive'' \<longrightarrow>
      map_of [(''j_drive'', JStr ''ja''), (''n_drive'', JStr ''srv'')] k =
      map_of [(''j_drive'', JNum 7), (''n_drive'', JStr ''srv'')] k"
    by simp
  from main_ignores_j_drive [OF 1 2 3 4, of env0 w_stale] 2 3 show ?thesis by simp
qed

subsection \<open>The verifier\<close>

lemma listed_present: "n \<in> set (listdir_remote r) \<Longrightarrow> map_of r [n] \<noteq> None"
proof -
  assume "n \<in> set (listdir_remote r)"
  then obtain p x where px: "(p, x) \<in> set r" "length p = 1" "n = hd p"
    by (auto simp: listdir_remote_def)
  then have "p = [n]" by (cases p) auto
  with px(1) have "[n] \<in> fst ` set r" by force
  then show ?thesis by (simp add: map_of_eq_None_iff)
qed

lemma verify_loop_char:
  assumes "\<forall>n\<in>set names. map_of r [n] \<noteq> None"
  shows "verify_loop tday r names w =
     Next (\<forall>n\<in>set (filter (\<lambda>n. endswith n ''.kmz'') names). dated tday r n)
       (w\<lparr>logged := logged w @
            transfer_logs (takeWhile (dated tday r) (filter (\<lambda>n. endswith n ''.kmz'') names))\<rparr>)"
  using assms
proof (induction names arbitrary: w)
  case Nil
  then show ?case by (simp add: transfer_logs_def)
next
  case (Cons n names)
  then show ?case
    by (auto simp: dated_def transfer_logs_def log_info_def split: option.splits)
qed

lemma verify_loop_break:
  assumes "endswith bad ''.kmz''" "map_of r [bad] = Some x" "cdate x \<noteq> tday"
  shows "verify_loop tday r (xs @ bad # ys) w = verify_loop tday r (xs @ [bad]) w"
  using assms by (induction xs arbitrary: w) (auto split: option.splits)


lemma verify_unfold:
  assumes "drives w ''N:'' = Some share" and "map_of (shares w share) [] = Some (RDir d)"
  shows "verify env w =
     (if \<forall>n\<in>set (kmz_names (shares w share)). dated (today env) (shares w share) n
      then Next () (w\<lparr>logged := logged w @ transfer_logs
               (takeWhile (dated (today env) (shares w share)) (kmz_names (shares w share)))\<rparr>)
      else and_then (sendEmail env ERROR_SUBJECT (w\<lparr>logged := logged w @ transfer_logs
               (takeWhile (dated (today env) (shares w share)) (kmz_names (shares w share)))\<rparr>))
             (\<lambda>_ w''. Halt 1 w''))"
proof -
  have p: "\<forall>n\<in>set (listdir_remote (shares w share)). map_of (shares w share) [n] \<noteq> None"
    using listed_present by blast
  show ?thesis
    unfolding verify_def
    by (simp only: assms option.case rnode.case verify_loop_char [OF p] kmz_names_def
        and_then_Next split: if_split) blast
qed


lemma verify_all_dated:
  assumes "drives w ''N:'' = Some share" and "map_of (shares w share) [] = Some (RDir d)"
    and "\<forall>n\<in>set (kmz_names (shares w share)). dated (today env) (shares w share) n"
  shows "verify env w = Next () (w\<lparr>logged := logged w @ transfer_logs (kmz_names (shares w share))\<rparr>)"
proof -
  from assms(3) have eq: "takeWhile (dated (today env) (shares w share)) (kmz_names (shares w share))
      = kmz_names (shares w share)"
    by (simp add: takeWhile_eq_all_conv)
  show ?thesis by (simp add: verify_unfold [OF assms(1,2)] assms(3) eq)
qed

lemma verify_stale:
  assumes "drives w ''N:'' = Some share" and "map_of (shares w share) [] = Some (RDir d)"
    and "\<exists>n\<in>set (kmz_names (shares w share)). \<not> dated (today env) (shares w share) n"
  shows "exit_code (fst (finish (verify env w))) = 1"
    and "logged (snd (finish (verify env w))) =
              logged w @ transfer_logs (takeWhile (dated (today env) (shares w share))
                                          (kmz_names (shares w share)))
                @ (if smtp_ok env then [Info ''Email sent to GIS Team SDE Administrators.''] else [])"
    and "outbox (snd (finish (verify env w))) =
              outbox w @ (if smtp_ok env then [ERROR_SUBJECT] else [])"
proof -
  from assms(3) have n: "\<not> (\<forall>n\<in>set (kmz_names (shares w share)). dated (today env) (shares w share) n)"
    by blast
  show "exit_code (fst (finish (verify env w))) = 1"
    by (simp add: verify_unfold [OF assms(1,2)] n sendEmail_def log_info_def)
  show "logged (snd (finish (verify env w))) =
              logged w @ transfer_logs (takeWhile (dated (today env) (shares w share))
                                          (kmz_names (shares w share)))
                @ (if smtp_ok env then [Info ''Email sent to GIS Team SDE Administrators.''] else [])"
    by (simp add: verify_unfold [OF assms(1,2)] n sendEmail_def log_info_def)
  show "outbox (snd (finish (verify env w))) =
              outbox w @ (if smtp_ok env then [ERROR_SUBJECT] else [])"
    by (simp add: verify_unfold [OF assms(1,2)] n sendEmail_def log_info_def)
qed

text \<open>
  C5. With \<^verbatim>\<open>N:\<close> bound and the remote directory there, the verifier looks at the names
  of the remote directory that end in \<^verbatim>\<open>.kmz\<close>, in the order of the listing. If all of
  them are dated the run date, it falls through to the rest of the script, having logged
  every one of them. Otherwise the process ends with status 1; it has logged exactly the
  names before the first stale one, and, the relay permitting, has mailed the failure
  subject. The loop stops at the first stale name: what follows it in the listing does
  not change the result.
\<close>

theorem verify_flags_first_stale:
  assumes "drives w ''N:'' = Some share" and "map_of (shares w share) [] = Some (RDir d)"
  shows "((\<forall>n\<in>set (kmz_names (shares w share)). dated (today env) (shares w share) n) \<longrightarrow>
            verify env w =
              Next () (w\<lparr>logged := logged w @ transfer_logs (kmz_names (shares w share))\<rparr>)) \<and>
         ((\<exists>n\<in>set (kmz_names (shares w share)). \<not> dated (today env) (shares w share) n) \<longrightarrow>
            exit_code (fst (finish (verify env w))) = 1 \<and>
            logged (snd (finish (verify env w))) =
              logged w @ transfer_logs (takeWhile (dated (today env) (shares w share))
                                          (kmz_names (shares w share)))
                @ (if smtp_ok env then [Info ''Email sent to GIS Team SDE Administrators.''] else []) \<and>
            outbox (snd (finish (verify env w))) =
              outbox w @ (if smtp_ok env then [ERROR_SUBJECT] else [])) \<and>
         (\<forall>bad x xs ys w'. endswith bad ''.kmz'' \<and> map_of (shares w share) [bad] = Some x \<and>
              cdate x \<noteq> today env \<longrightarrow>
            verify_loop (today env) (shares w share) (xs @ bad # ys) w' =
            verify_loop (today env) (shares w share) (xs @ [bad]) w')"
proof (intro conjI impI allI)
  assume "\<forall>n\<in>set (kmz_names (shares w share)). dated (today env) (shares w share) n"
  then show "verify env w =
      Next () (w\<lparr>logged := logged w @ transfer_logs (kmz_names (shares w share))\<rparr>)"
    by (rule verify_all_dated [OF assms])
next
  assume s: "\<exists>n\<in>set (kmz_names (shares w share)). \<not> dated (today env) (shares w share) n"
  show "exit_code (fst (finish (verify env w))) = 1"
    by (rule verify_stale(1) [OF assms s])
  show "logged (snd (finish (verify env w))) =
      logged w @ transfer_logs (takeWhile (dated (today env) (shares w share))
                                  (kmz_names (shares w share)))
        @ (if smtp_ok env then [Info ''Email sent to GIS Team SDE Administrators.''] else [])"
    by (rule verify_stale(2) [OF assms s])
  show "outbox (snd (finish (verify env w))) =
      outbox w @ (if smtp_ok env then [ERROR_SUBJECT] else [])"
    by (rule verify_stale(3) [OF assms s])
next
  fix bad x xs ys w'
  assume "endswith bad ''.kmz'' \<and> map_of (shares w share) [bad] = Some x \<and> cdate x \<noteq> today env"
  then show "verify_loop (today env) (shares w share) (xs @ bad # ys) w' =
      verify_loop (today env) (shares w share) (xs @ [bad]) w'"
    using verify_loop_break by blast
qed

lemma kmz_names_w_remote: "kmz_names (shares w_remote ''srv'') = [''a.kmz'', ''b.kmz'', ''c.kmz'']"
  by (simp add: kmz_names_def listdir_remote_def w_remote_def endswith_def)

lemma kmz_names_w_fresh: "kmz_names (shares w_fresh ''srv'') = [''a.kmz'', ''b.kmz'']"
  by (simp add: kmz_names_def listdir_remote_def w_fresh_def endswith_def)

theorem verify_flags_first_stale_witness:
  "verify env0 w_fresh = Next () (w_fresh\<lparr>logged := transfer_logs [''a.kmz'', ''b.kmz'']\<rparr>) \<and>
   exit_code (fst (finish (verify env0 w_remote))) = 1 \<and>
   logged (snd (finish (verify env0 w_remote))) =
     transfer_logs [''a.kmz''] @ [Info ''Email sent to GIS Team SDE Administrators.''] \<and>
   outbox (snd (finish (verify env0 w_remote))) = [ERROR_SUBJECT]"
proof -
  have f1: "drives w_fresh ''N:'' = Some ''srv''" by (simp add: w_fresh_def)
  have f2: "map_of (shares w_fresh ''srv'') [] = Some (RDir 1)" by (simp add: w_fresh_def)
  have f3: "\<forall>n\<in>set (kmz_names (shares w_fresh ''srv'')). dated (today env0) (shares w_fresh ''srv'') n"
    by (simp add: kmz_names_w_fresh) (simp add: dated_def w_fresh_def env0_def)
  have r1: "drives w_remote ''N:'' = Some ''srv''" by (simp add: w_remote_def)
  have r2: "map_of (shares w_remote ''srv'') [] = Some (RDir 1)" by (simp add: w_remote_def)
  have r3: "\<exists>n\<in>set (kmz_names (shares w_remote ''srv'')). \<not> dated (today env0) (shares w_remote ''srv'') n"
    by (simp add: kmz_names_w_remote) (simp add: dated_def w_remote_def env0_def)
  have r4: "dated (today env0) (shares w_remote ''srv'') ''a.kmz''"
    "\<not> dated (today env0) (shares w_remote ''srv'') ''b.kmz''"
    by (simp_all add: dated_def w_remote_def env0_def)
  have l: "logged w_fresh = []" "logged w_remote = []" "outbox w_remote = []" "smtp_ok env0"
    by (simp_all add: w_fresh_def w_remote_def w0_def env0_def)
  from verify_flags_first_stale [OF f1 f2, of env0] f3
    verify_flags_first_stale [OF r1 r2, of env0] r3
  show ?thesis by (simp add: kmz_names_w_fresh kmz_names_w_remote r4 l)
qed

subsection \<open>The drive letters when the process ends\<close>

lemma script_upto:
  "script env src w =
     and_then (upto_rebind env src w) (\<lambda>_ w4.
     and_then (sendEmail env SUCCESS_SUBJECT w4) (\<lambda>_ w5.
     Next () (log_info ''EOF - processing complete.'' w5)))"
  by (simp add: script_def upto_rebind_def upto_unbind_def upto_verify_def reset_and_report_def
      and_then_assoc)

lemma and_then_stops:
  "\<not> proceeds m \<Longrightarrow>
     \<not> proceeds (and_then m k) \<and> world_of (and_then m k) = world_of m \<and>
     (exits_1 m \<longrightarrow> exits_1 (and_then m k))"
  by (cases m) simp_all

lemma finish_stops:
  "\<not> proceeds m \<Longrightarrow> exits_1 m \<Longrightarrow> exit_code (fst (finish m)) = 1 \<and> snd (finish m) = world_of m"
  by (cases m) simp_all

lemma proceedsE: "proceeds m \<Longrightarrow> \<exists>a w. m = Next a w"
  by (cases m) simp_all

lemma sendEmail_drives: "drives (world_of (sendEmail env s w)) = drives w"
  by (simp add: sendEmail_def log_info_def)

lemma sendEmail_exits_1: "exits_1 (sendEmail env s w)"
  by (simp add: sendEmail_def)

lemma unmap_Next_drives:
  "unmap_network_drive env d w = Next u w' \<Longrightarrow> drives w' = (drives w)(d := None)"
  by (auto simp: unmap_network_drive_def is_drive_mapped_def try_except_def and_then_def
      net_use_delete_def log_info_def split: if_splits)

lemma unmap_stops:
  "\<not> proceeds (unmap_network_drive env d w) \<Longrightarrow>
     drives (world_of (unmap_network_drive env d w)) = drives w \<and> drives w d \<noteq> None"
  by (auto simp: unmap_network_drive_def is_drive_mapped_def try_except_def and_then_def
      net_use_delete_def log_info_def split: if_splits)

lemma unmap_exits_1: "exits_1 (unmap_network_drive env d w)"
  by (auto simp: unmap_network_drive_def is_drive_mapped_def try_except_def and_then_def
      net_use_delete_def log_info_def split: if_splits)

lemma map_Next_drives:
  "map_network_drive env d p w = Next u w' \<Longrightarrow>
     drives w' d \<noteq> None \<and> (\<forall>d'. d' \<noteq> d \<longrightarrow> drives w' d' = drives w d') \<and>
     (drives w d = None \<longrightarrow> (\<exists>s. p = JStr s \<and> drives w' d = Some s))"
  by (auto simp: map_network_drive_def is_drive_mapped_def try_except_def and_then_def
      net_use_bind_def log_info_def split: if_splits json.splits flow.splits)

lemma map_stops:
  "\<not> proceeds (map_network_drive env d p w) \<Longrightarrow>
     drives (world_of (map_network_drive env d p w)) = drives w"
  by (auto simp: map_network_drive_def is_drive_mapped_def try_except_def and_then_def
      net_use_bind_def log_info_def log_error_def split: if_splits json.splits flow.splits)

lemma map_exits_1: "exits_1 (map_network_drive env d p w)"
  by (auto simp: map_network_drive_def is_drive_mapped_def try_except_def and_then_def
      net_use_bind_def log_info_def log_error_def split: if_splits json.splits flow.splits)

lemma publish_drives: "drives (world_of (publish env edir w)) = drives w"
  by (auto simp: publish_def Let_def split: option.splits prod.splits)

lemma publish_exits_1: "exits_1 (publish env edir w)"
  by (auto simp: publish_def Let_def split: option.splits prod.splits)

lemma verify_loop_drives: "drives (world_of (verify_loop t r ns w)) = drives w"
  by (induction t r ns w rule: verify_loop.induct) (auto simp: log_info_def split: option.splits)

lemma verify_loop_exits_1: "exits_1 (verify_loop t r ns w)"
  by (induction t r ns w rule: verify_loop.induct) (auto split: option.splits)

lemma verify_loop_no_Halt: "verify_loop t r ns w \<noteq> Halt n w'"
  by (induction t r ns w rule: verify_loop.induct) (auto split: option.splits)

lemma verify_drives: "drives (world_of (verify env w)) = drives w"
proof (cases "verify_loop (today env) (shares w (the (drives w ''N:''))) (listdir_remote (shares w (the (drives w ''N:'')))) w")
  case (Next b w')
  with verify_loop_drives[of "today env" "shares w (the (drives w ''N:''))" "listdir_remote (shares w (the (drives w ''N:'')))" w]
  show ?thesis
    by (auto simp: verify_def sendEmail_def log_info_def split: option.splits rnode.splits)
next
  case (Halt n w')
  with verify_loop_no_Halt show ?thesis by blast
next
  case (Raise e w')
  with verify_loop_drives[of "today env" "shares w (the (drives w ''N:''))" "listdir_remote (shares w (the (drives w ''N:'')))" w]
  show ?thesis
    by (auto simp: verify_def split: option.splits rnode.splits)
qed

lemma verify_exits_1: "exits_1 (verify env w)"
proof (cases "verify_loop (today env) (shares w (the (drives w ''N:''))) (listdir_remote (shares w (the (drives w ''N:'')))) w")
  case (Next b w')
  then show ?thesis
    by (auto simp: verify_def sendEmail_def split: option.splits rnode.splits)
next
  case (Halt n w')
  with verify_loop_no_Halt show ?thesis by blast
next
  case (Raise e w')
  then show ?thesis
    by (auto simp: verify_def split: option.splits rnode.splits)
qed

lemma publish_and_verify_drives: "drives (world_of (publish_and_verify env edir w)) = drives w"
proof (cases "publish env edir w")
  case (Next u w')
  with publish_drives[of env edir w] verify_drives[of env w'] show ?thesis
    by (simp add: publish_and_verify_def)
next
  case (Halt n w')
  with publish_drives[of env edir w] show ?thesis by (simp add: publish_and_verify_def)
next
  case (Raise e w')
  with publish_drives[of env edir w] show ?thesis by (simp add: publish_and_verify_def)
qed

lemma publish_and_verify_exits_1: "exits_1 (publish_and_verify env edir w)"
proof (cases "publish env edir w")
  case (Next u w')
  with verify_exits_1[of env w'] show ?thesis by (simp add: publish_and_verify_def)
next
  case (Halt n w')
  with publish_exits_1[of env edir w] show ?thesis by (simp add: publish_and_verify_def)
next
  case (Raise e w')
  then show ?thesis by (simp add: publish_and_verify_def)
qed

lemma prepare_drives:
  assumes "prepare env src w = Next cfg w1"
  shows "drives w1 ''N:'' \<noteq> None \<and> drives w1 ''J:'' = None"
proof -
  from assms obtain w3 w4 where u: "unmap_network_drive env ''J:'' w3 = Next () w4"
    and m: "map_network_drive env ''N:'' (n_drive cfg) w4 = Next () w1"
    by (auto simp: prepare_def and_then_def split: flow.splits)
  from unmap_Next_drives[OF u] have "drives w4 ''J:'' = None" by simp
  with map_Next_drives[OF m] show ?thesis by auto
qed

lemmas run_defs = main_def script_def prepare_def publish_and_verify_def reset_and_report_def
  load_config_def config_body_def config_handler_def clean_workspace_def
  delete_files_in_directory_def remove_in_def convert_layers_def LayerToKML_conversion_def
  conversion_call_def layer_dest_def endswith_def unmap_network_drive_def map_network_drive_def
  net_use_bind_def net_use_delete_def is_drive_mapped_def publish_def ensure_dir_def
  publish_file_def shutil_move_def verify_def listdir_remote_def sendEmail_def fail_exit_def
  try_except_def and_then_def log_info_def log_error_def sep_def Let_def

lemma finish_world: "snd (finish m) = world_of m"
  by (cases m) simp_all

lemma tail_drives:
  "drives (world_of (and_then (sendEmail env s w) (\<lambda>_ w5. Next () (log_info t w5)))) = drives w"
  by (simp add: sendEmail_def log_info_def)

lemma stops_at:
  assumes "script env src w = and_then m k" and "\<not> proceeds m" and "exits_1 m"
  shows "exit_code (fst (main env src w)) = 1 \<and> drives (snd (main env src w)) = drives (world_of m)"
proof -
  from and_then_stops[OF assms(2), of k] assms(3)
  have a: "\<not> proceeds (and_then m k)" "world_of (and_then m k) = world_of m"
    "exits_1 (and_then m k)" by simp_all
  from finish_stops[OF a(1) a(3)] a(2) assms(1) show ?thesis by (simp add: main_def)
qed

lemma script_upto_verify:
  "script env src w =
     and_then (upto_verify env src w) (\<lambda>_ w2. reset_and_report env w2)"
  by (simp add: script_def upto_verify_def and_then_assoc)

lemma script_upto_unbind:
  "script env src w =
     and_then (upto_unbind env src w) (\<lambda>_ w3.
     and_then (map_network_drive env ''J:'' (JStr J_ARCHIVE) w3) (\<lambda>_ w4.
     and_then (sendEmail env SUCCESS_SUBJECT w4) (\<lambda>_ w5.
     Next () (log_info ''EOF - processing complete.'' w5))))"
  by (simp add: script_def upto_unbind_def upto_verify_def reset_and_report_def and_then_assoc)

lemma upto_verify_state:
  assumes "prepare env src w = Next cfg w1"
  shows "exits_1 (upto_verify env src w) \<and>
         drives (world_of (upto_verify env src w)) ''N:'' \<noteq> None \<and>
         drives (world_of (upto_verify env src w)) ''J:'' = None"
  using assms prepare_drives[OF assms] publish_and_verify_drives[of env "export_dir cfg" w1]
    publish_and_verify_exits_1[of env "export_dir cfg" w1]
  by (simp add: upto_verify_def)

lemma upto_unbind_state:
  assumes "prepare env src w = Next cfg w1"
  shows "exits_1 (upto_unbind env src w) \<and>
         (\<not> proceeds (upto_unbind env src w) \<longrightarrow>
            drives (world_of (upto_unbind env src w)) ''N:'' \<noteq> None \<and>
            drives (world_of (upto_unbind env src w)) ''J:'' = None) \<and>
         (proceeds (upto_unbind env src w) \<longrightarrow>
            drives (world_of (upto_unbind env src w)) ''N:'' = None \<and>
            drives (world_of (upto_unbind env src w)) ''J:'' = None)"
proof (cases "upto_verify env src w")
  case (Next u w2)
  with upto_verify_state[OF assms] have d: "drives w2 ''N:'' \<noteq> None" "drives w2 ''J:'' = None"
    by simp_all
  have eq: "upto_unbind env src w = unmap_network_drive env ''N:'' w2"
    using Next by (simp add: upto_unbind_def)
  show ?thesis
  proof (cases "unmap_network_drive env ''N:'' w2")
    case (Next u' w3)
    from unmap_Next_drives[OF this] d this eq show ?thesis by simp
  next
    case (Halt n w3)
    with unmap_stops[of env "''N:''" w2] unmap_exits_1[of env "''N:''" w2] d eq
    show ?thesis by simp
  next
    case (Raise e w3)
    with unmap_stops[of env "''N:''" w2] d eq show ?thesis by simp
  qed
next
  case (Halt n w2)
  with upto_verify_state[OF assms] show ?thesis by (simp add: upto_unbind_def)
next
  case (Raise e w2)
  with upto_verify_state[OF assms] show ?thesis by (simp add: upto_unbind_def)
qed

lemma upto_rebind_state:
  assumes "prepare env src w = Next cfg w1" and "proceeds (upto_unbind env src w)"
  shows "exits_1 (upto_rebind env src w) \<and>
         drives (world_of (upto_rebind env src w)) ''N:'' = None \<and>
         (\<not> proceeds (upto_rebind env src w) \<longrightarrow>
            drives (world_of (upto_rebind env src w)) ''J:'' = None) \<and>
         (proceeds (upto_rebind env src w) \<longrightarrow>
            drives (world_of (upto_rebind env src w)) ''J:'' = Some J_ARCHIVE)"
proof -
  from proceedsE[OF assms(2)] obtain u w3 where n: "upto_unbind env src w = Next u w3" by blast
  with upto_unbind_state[OF assms(1)] have d: "drives w3 ''N:'' = None" "drives w3 ''J:'' = None"
    by simp_all
  have eq: "upto_rebind env src w = map_network_drive env ''J:'' (JStr J_ARCHIVE) w3"
    using n by (simp add: upto_rebind_def)
  have jn: "''N:'' \<noteq> ''J:''" by simp
  show ?thesis
  proof (cases "map_network_drive env ''J:'' (JStr J_ARCHIVE) w3")
    case (Next u' w4)
    from map_Next_drives[OF this] d jn this eq show ?thesis by auto
  next
    case (Halt k w4)
    with map_stops[of env "''J:''" "JStr J_ARCHIVE" w3]
      map_exits_1[of env "''J:''" "JStr J_ARCHIVE" w3] d eq
    show ?thesis by simp
  next
    case (Raise e w4)
    with map_stops[of env "''J:''" "JStr J_ARCHIVE" w3] d eq show ?thesis by simp
  qed
qed

lemma after_rebind:
  assumes "proceeds (upto_rebind env src w)"
  shows "drives (snd (main env src w)) = drives (world_of (upto_rebind env src w))"
proof -
  from proceedsE[OF assms] obtain u w4 where n: "upto_rebind env src w = Next u w4" by blast
  with tail_drives[of env SUCCESS_SUBJECT w4 "''EOF - processing complete.''"]
  show ?thesis by (simp add: main_def finish_world script_upto)
qed

text \<open>
  C9, as the specification states it, fails for a failure inside the reset itself. On a
  host that refuses to bind \<^verbatim>\<open>J:\<close>, the run binds \<^verbatim>\<open>N:\<close>, publishes, passes the
  verifier, releases \<^verbatim>\<open>N:\<close>, and then \<^verbatim>\<open>map_network_drive\<close> exits with status 1:
  \<^verbatim>\<open>N:\<close> is not bound when the process ends.
\<close>

theorem rebind_failure_leaves_N_unbound:
  "proceeds (prepare env_jfail (Parsed (JDict kvs_a)) w_run) \<and>
   drives (world_of (prepare env_jfail (Parsed (JDict kvs_a)) w_run)) ''N:'' = Some ''srv'' \<and>
   fst (main env_jfail (Parsed (JDict kvs_a)) w_run) = Exit 1 \<and>
   drives (snd (main env_jfail (Parsed (JDict kvs_a)) w_run)) ''N:'' = None \<and>
   drives (snd (main env_jfail (Parsed (JDict kvs_a)) w_run)) ''J:'' = None"
  by (simp add: run_defs env_jfail_def env0_def w_run_def w0_def kvs_a_def)

text \<open>
  C9, amended. Once the script has bound \<^verbatim>\<open>N:\<close>: when it stops in the publisher, in
  the verifier or in the release of \<^verbatim>\<open>N:\<close>, the process ends with status 1, \<^verbatim>\<open>N:\<close>
  bound and \<^verbatim>\<open>J:\<close> unbound; when it stops in the rebinding of \<^verbatim>\<open>J:\<close>, the process
  ends with status 1 and both letters unbound; when the rebinding returns, the process
  ends with \<^verbatim>\<open>N:\<close> unbound and \<^verbatim>\<open>J:\<close> bound to the archive path.
\<close>

theorem drive_letters_at_exit:
  assumes "proceeds (prepare env src w)"
  shows "(\<not> proceeds (upto_unbind env src w) \<longrightarrow>
            exit_code (fst (main env src w)) = 1 \<and>
            drives (snd (main env src w)) ''N:'' \<noteq> None \<and>
            drives (snd (main env src w)) ''J:'' = None) \<and>
         (proceeds (upto_unbind env src w) \<and> \<not> proceeds (upto_rebind env src w) \<longrightarrow>
            exit_code (fst (main env src w)) = 1 \<and>
            drives (snd (main env src w)) ''N:'' = None \<and>
            drives (snd (main env src w)) ''J:'' = None) \<and>
         (proceeds (upto_rebind env src w) \<longrightarrow>
            drives (snd (main env src w)) ''N:'' = None \<and>
            drives (snd (main env src w)) ''J:'' = Some J_ARCHIVE)"
proof -
  from proceedsE[OF assms] obtain cfg w1 where p: "prepare env src w = Next cfg w1" by blast
  note ub = upto_unbind_state[OF p]
  have a: "exit_code (fst (main env src w)) = 1 \<and>
           drives (snd (main env src w)) ''N:'' \<noteq> None \<and>
           drives (snd (main env src w)) ''J:'' = None"
    if s: "\<not> proceeds (upto_unbind env src w)"
    using stops_at[OF script_upto_unbind s] ub s by simp
  have rb: "proceeds (upto_rebind env src w) \<Longrightarrow> proceeds (upto_unbind env src w)"
    by (cases "upto_unbind env src w") (simp_all add: upto_rebind_def)
  have b: "exit_code (fst (main env src w)) = 1 \<and>
           drives (snd (main env src w)) ''N:'' = None \<and>
           drives (snd (main env src w)) ''J:'' = None"
    if s: "proceeds (upto_unbind env src w)" and t: "\<not> proceeds (upto_rebind env src w)"
    using stops_at[OF script_upto t] upto_rebind_state[OF p s] t by simp
  have c: "drives (snd (main env src w)) ''N:'' = None \<and>
           drives (snd (main env src w)) ''J:'' = Some J_ARCHIVE"
    if t: "proceeds (upto_rebind env src w)"
    using after_rebind[OF t] upto_rebind_state[OF p rb[OF t]] t by simp
  from a b c show ?thesis by blast
qed

lemma run_old:
  "proceeds (prepare env0 (Parsed (JDict kvs_a)) w_old) \<and>
   \<not> proceeds (upto_unbind env0 (Parsed (JDict kvs_a)) w_old) \<and>
   fst (main env0 (Parsed (JDict kvs_a)) w_old) = Exit 1 \<and>
   outbox (snd (main env0 (Parsed (JDict kvs_a)) w_old)) = [ERROR_SUBJECT]"
  by (simp add: run_defs upto_unbind_def upto_verify_def env0_def w_old_def w_run_def w0_def kvs_a_def)

lemma run_jfail:
  "proceeds (prepare env_jfail (Parsed (JDict kvs_a)) w_run) \<and>
   proceeds (upto_unbind env_jfail (Parsed (JDict kvs_a)) w_run) \<and>
   \<not> proceeds (upto_rebind env_jfail (Parsed (JDict kvs_a)) w_run)"
  by (simp add: run_defs upto_rebind_def upto_unbind_def upto_verify_def env_jfail_def env0_def w_run_def w0_def kvs_a_def)

lemma run_ok:
  "proceeds (prepare env0 (Parsed (JDict kvs_a)) w_run) \<and>
   proceeds (upto_rebind env0 (Parsed (JDict kvs_a)) w_run) \<and>
   fst (main env0 (Parsed (JDict kvs_a)) w_run) = Exit 0"
  by (simp add: run_defs upto_rebind_def upto_unbind_def upto_verify_def env0_def w_run_def w0_def kvs_a_def)

theorem drive_letters_at_exit_witness:
  "proceeds (prepare env0 (Parsed (JDict kvs_a)) w_old) \<and>
   \<not> proceeds (upto_unbind env0 (Parsed (JDict kvs_a)) w_old) \<and>
   exit_code (fst (main env0 (Parsed (JDict kvs_a)) w_old)) = 1 \<and>
   drives (snd (main env0 (Parsed (JDict kvs_a)) w_old)) ''N:'' \<noteq> None \<and>
   drives (snd (main env0 (Parsed (JDict kvs_a)) w_old)) ''J:'' = None \<and>
   proceeds (upto_unbind env_jfail (Parsed (JDict kvs_a)) w_run) \<and>
   \<not> proceeds (upto_rebind env_jfail (Parsed (JDict kvs_a)) w_run) \<and>
   exit_code (fst (main env_jfail (Parsed (JDict kvs_a)) w_run)) = 1 \<and>
   drives (snd (main env_jfail (Parsed (JDict kvs_a)) w_run)) ''N:'' = None \<and>
   proceeds (upto_rebind env0 (Parsed (JDict kvs_a)) w_run) \<and>
   drives (snd (main env0 (Parsed (JDict kvs_a)) w_run)) ''J:'' = Some J_ARCHIVE"
proof -
  from run_old have o: "proceeds (prepare env0 (Parsed (JDict kvs_a)) w_old)"
    "\<not> proceeds (upto_unbind env0 (Parsed (JDict kvs_a)) w_old)" by simp_all
  from run_jfail have j: "proceeds (prepare env_jfail (Parsed (JDict kvs_a)) w_run)"
    "proceeds (upto_unbind env_jfail (Parsed (JDict kvs_a)) w_run)"
    "\<not> proceeds (upto_rebind env_jfail (Parsed (JDict kvs_a)) w_run)" by simp_all
  from run_ok have k: "proceeds (prepare env0 (Parsed (JDict kvs_a)) w_run)"
    "proceeds (upto_rebind env0 (Parsed (JDict kvs_a)) w_run)" by simp_all
  from drive_letters_at_exit[OF o(1)] drive_letters_at_exit[OF j(1)] drive_letters_at_exit[OF k(1)]
    o j k show ?thesis by blast
qed

subsection \<open>What the handlers do with a caught error\<close>

text \<open>
  C1. The handlers are not uniform. When \<^verbatim>\<open>net use N: path\<close> fails,
  \<^verbatim>\<open>map_network_drive\<close> catches the error, logs it with its line number and exits with
  status 1, but no failure mail is sent. When \<^verbatim>\<open>net use J: /delete\<close> fails, the handler
  of \<^verbatim>\<open>unmap_network_drive\<close> reads the undefined name \<^verbatim>\<open>e\<close>: the process ends by an
  uncaught \<^verbatim>\<open>NameError\<close>, with no error record and no mail. When a file of the export
  directory cannot be removed, \<^verbatim>\<open>delete_files_in_directory\<close> sends the mail and exits
  with status 1, but its error record holds no line number.
\<close>

theorem drive_handlers_send_no_mail:
  "fst (main env_nfail (Parsed (JDict kvs_a)) w_run) = Exit 1 \<and>
   filter is_error (logged (snd (main env_nfail (Parsed (JDict kvs_a)) w_run))) =
     [Error ''An error occurred while mapping the drive'' (Some 0)] \<and>
   outbox (snd (main env_nfail (Parsed (JDict kvs_a)) w_run)) = [] \<and>
   fst (main env_ufail (Parsed (JDict kvs_a)) w_jbound) = Uncaught NameError \<and>
   filter is_error (logged (snd (main env_ufail (Parsed (JDict kvs_a)) w_jbound))) = [] \<and>
   outbox (snd (main env_ufail (Parsed (JDict kvs_a)) w_jbound)) = [] \<and>
   fst (main env_rmfail (Parsed (JDict kvs_a)) w_locked) = Exit 1 \<and>
   filter is_error (logged (snd (main env_rmfail (Parsed (JDict kvs_a)) w_locked))) =
     [Error ''Error occurred on line {error_line} while deleting files'' None] \<and>
   outbox (snd (main env_rmfail (Parsed (JDict kvs_a)) w_locked)) = [ERROR_SUBJECT]"
  by (simp add: run_defs env_nfail_def env_ufail_def env_rmfail_def env0_def w_jbound_def
      w_locked_def w_run_def w0_def kvs_a_def)

subsection \<open>The conversion step\<close>

















end
